theory Spec2Isabelle
  imports Main "HOL-Library.AList" "HOL-Library.Sublist"
begin

section \<open>Python values, exceptions and dictionaries\<close>

text \<open>
  The values that flow through the record layer: scalars and instances of model classes.
  An instance carries the names of its class and of that class's ancestors (its method
  resolution order) and its field dictionary.
\<close>

datatype pyval =
    PNone
  | PInt int
  | PStr string
  | PInst "string list" "(string \<times> pyval) list"

text \<open>
  A Python \<open>dict\<close> keeps insertion order; it is an association list with distinct keys.
  \<open>d[k] = v\<close> is \<open>AList.update k v d\<close>: an existing key keeps its position, a new key
  goes to the end. \<open>d.get(k)\<close> is \<open>map_of d k\<close>.
\<close>

type_synonym pydict = "(string \<times> pyval) list"

text \<open>The error of one field, as the validation primitive reports it: message and location.\<close>

datatype error_wrapper = ErrorWrapper string string

datatype exn =
    ModalMissingConfig string
  | ValueError string
  | TypeError string
  | AssertionError string
  | AttributeError string
  | KeyError string
  | IndexError string
  | StopIteration
  | ValidationError "error_wrapper list" string
  | SQLAlchemyError string

text \<open>\<open>d.update(kwds)\<close>: every pair of \<open>kwds\<close> is stored in turn.\<close>

definition dict_update :: "('k \<times> 'v) list \<Rightarrow> ('k \<times> 'v) list \<Rightarrow> ('k \<times> 'v) list" where
  "dict_update d kwds = foldl (\<lambda>acc (k, v). AList.update k v acc) d kwds"

text \<open>The comprehension \<open>{v: k for k, v in d.items()}\<close>.\<close>

definition invert_dict :: "('k \<times> 'v) list \<Rightarrow> ('v \<times> 'k) list" where
  "invert_dict d = foldl (\<lambda>acc (k, v). AList.update v k acc) [] d"

text \<open>\<open>sep.join(xs)\<close>\<close>

fun join :: "string \<Rightarrow> string list \<Rightarrow> string" where
  "join sep [] = []"
| "join sep [x] = x"
| "join sep (x # y # ys) = x @ sep @ join sep (y # ys)"

section \<open>Config and Model (models/core.py)\<close>

record config =
  search_by :: string
  exclude :: "string list"
  partials :: "(string \<times> string) list"
  invalidate_after :: int

text \<open>
  A field of a model class, as far as this layer uses it: its \<open>validate(v, {}, loc=...)\<close>,
  which returns the coerced value and an error or no error. The rule itself belongs to
  the validation library and is a parameter of the model.
\<close>

type_synonym field = "pyval \<Rightarrow> string \<Rightarrow> pyval \<times> error_wrapper option"

text \<open>
  A model class: its name, the names in its method resolution order, \<open>_config\<close>,
  \<open>__fields__\<close>, \<open>ezycore_internal__partials\<close>, and the constructor \<open>cls(**data)\<close> of the
  validation library, which returns the field dictionary of the new instance or raises.
\<close>

record model =
  m_name :: string
  m_mro :: "string list"
  m_config :: config
  m_fields :: "(string \<times> field) list"
  m_partials :: "string list"
  m_validate :: "pydict \<Rightarrow> exn + pydict"

text \<open>\<open>isinstance(v, type_)\<close>\<close>

definition isinstance :: "pyval \<Rightarrow> model \<Rightarrow> bool" where
  "isinstance v tp = (case v of PInst mro _ \<Rightarrow> m_name tp \<in> set mro | _ \<Rightarrow> False)"

text \<open>\<open>cls(**data)\<close>: a new instance of the class, or the validation error.\<close>

definition model_call :: "model \<Rightarrow> pydict \<Rightarrow> exn + pyval" where
  "model_call m data =
     (case m_validate m data of Inl e \<Rightarrow> Inl e | Inr flds \<Rightarrow> Inr (PInst (m_mro m) flds))"

section \<open>The driver state (drivers/sqlalchemy\_driver.py)\<close>

type_synonym row = "pyval list"
type_synonym db_row = "string \<times> pydict"

text \<open>
  Modelled from the spec: the backing store's session, "transactional row insertion with
  explicit commit/rollback" (section 6). Rows that were added wait in \<open>pending\<close>; a commit
  moves them to \<open>committed\<close>; a rollback drops them.
\<close>

record session =
  committed :: "db_row list"
  pending :: "db_row list"

record driver =
  models :: "(string \<times> model) list"
  headers :: "(string \<times> string list) list"
  maps :: "(string \<times> string) list"
  rev_map :: "(string \<times> string) list"
  db :: session
  stdout :: "string list"

text \<open>
  \<open>__init__\<close>: the reflected tables are what \<open>_read_heads\<close> stores in the headers.
\<close>

definition driver_init ::
  "session \<Rightarrow> (string \<times> string list) list \<Rightarrow> (string \<times> model) list \<Rightarrow> (string \<times> string) list \<Rightarrow> driver" where
  "driver_init s reflected ms model_maps =
     \<lparr> models = ms,
       headers = dict_update [] reflected,
       maps = model_maps,
       rev_map = invert_dict model_maps,
       db = s,
       stdout = [] \<rparr>"

definition map_to_model :: "driver \<Rightarrow> (string \<times> string) list \<Rightarrow> driver" where
  "map_to_model d kwds =
     (let maps' = dict_update (maps d) kwds
      in d\<lparr> maps := maps', rev_map := invert_dict maps' \<rparr>)"

subsection \<open>Class definition: \<open>_read_partials\<close>, \<open>_verify_partials\<close>, \<open>__init_subclass__\<close>\<close>

text \<open>
  What a class body declares. An annotation is \<open>PartialRef[X]\<close> or anything else; \<open>X\<close> is a
  subclass of \<open>Model\<close>, another class, or not a class at all (\<open>issubclass\<close> then raises
  \<open>TypeError\<close>). The attribute \<open>_config\<close> is a \<open>dict\<close>, a \<open>Config\<close>, some other object, or is
  not found (\<open>None\<close> here, \<open>AttributeError\<close> in the source).
\<close>

datatype type_arg = Model_class string | Other_class string | Not_a_class

datatype annotation = PartialRef_of type_arg | Other_annotation

datatype config_attr = Cfg_dict pydict | Cfg_config config | Cfg_other pyval

record class_decl =
  d_name :: string
  d_mro :: "string list"
  d_annotations :: "(string \<times> annotation) list"
  d_config :: "config_attr option"
  d_fields :: "(string \<times> field) list"
  d_validate :: "pydict \<Rightarrow> exn + pydict"

fun read_partials :: "(string \<times> annotation) list \<Rightarrow> exn + string list" where
  "read_partials [] = Inr []"
| "read_partials ((k, Other_annotation) # rest) = read_partials rest"
| "read_partials ((k, PartialRef_of (Model_class n)) # rest) =
     (case read_partials rest of Inl e \<Rightarrow> Inl e | Inr ks \<Rightarrow> Inr (k # ks))"
| "read_partials ((k, PartialRef_of (Other_class n)) # rest) =
     Inl (ValueError (''Invalid model provided for partial definition: '' @ k))"
| "read_partials ((k, PartialRef_of Not_a_class) # rest) =
     Inl (TypeError ''issubclass() arg 1 must be a class'')"

definition verify_partials :: "config \<Rightarrow> class_decl \<Rightarrow> exn + model" where
  "verify_partials cfg decl =
     (case read_partials (d_annotations decl) of
        Inl e \<Rightarrow> Inl e
      | Inr ps \<Rightarrow>
          (let defined_partials = partials cfg;
               missing = filter (\<lambda>i. map_of defined_partials i = None) ps
           in if missing \<noteq> []
              then Inl (ValueError (''Missing partial definitions for: '' @ join '', '' missing))
              else Inr \<lparr> m_name = d_name decl, m_mro = d_mro decl, m_config = cfg,
                         m_fields = d_fields decl, m_partials = ps,
                         m_validate = d_validate decl \<rparr>))"

text \<open>
  \<open>__init_subclass__\<close>. \<open>Config_init\<close> is \<open>Config(**r)\<close>, the constructor that the validation
  library derives from the fields of \<open>Config\<close>; it is a parameter. The call of
  \<open>super().__init_subclass__\<close> belongs to that library and is left out.
\<close>

definition init_subclass :: "(pydict \<Rightarrow> exn + config) \<Rightarrow> class_decl \<Rightarrow> exn + model" where
  "init_subclass Config_init decl =
     (case d_config decl of
        None \<Rightarrow> Inl (ModalMissingConfig ''_config variable not found'')
      | Some (Cfg_dict r) \<Rightarrow>
          (case Config_init r of Inl e \<Rightarrow> Inl e | Inr cfg \<Rightarrow> verify_partials cfg decl)
      | Some (Cfg_config cfg) \<Rightarrow> verify_partials cfg decl
      | Some (Cfg_other x) \<Rightarrow> Inl (AssertionError ''Invalid config class provided''))"

subsection \<open>\<open>PartialRef.validate\<close>\<close>

definition PartialRef_validate :: "model \<Rightarrow> pyval \<Rightarrow> exn + pyval" where
  "PartialRef_validate tp v =
     (if isinstance v tp then Inr v
      else
        (let primary_key = search_by (m_config tp)
         in case map_of (m_fields tp) primary_key of
              None \<Rightarrow> Inl (KeyError primary_key)
            | Some primary_field \<Rightarrow>
                (case primary_field v primary_key of
                   (valid_value, Some err) \<Rightarrow> Inl (ValidationError [err] ''PartialRef'')
                 | (valid_value, None) \<Rightarrow> Inr valid_value)))"

section \<open>The driver's operations\<close>

subsection \<open>The backend\<close>

text \<open>
  What the driver asks of the database library: building a query (\<open>select\<close>, \<open>where\<close>,
  \<open>limit\<close>), running it (\<open>fetchall\<close>, \<open>fetchone\<close>), building the row object of a table, and
  whether \<open>add\<close> and \<open>commit\<close> fail. Each may raise; the driver catches \<open>SQLAlchemyError\<close>
  only.
\<close>

record 'q backend =
  be_select :: "string \<Rightarrow> exn + 'q"
  be_where :: "'q \<Rightarrow> string \<Rightarrow> exn + 'q"
  be_limit :: "'q \<Rightarrow> int \<Rightarrow> exn + 'q"
  be_fetchall :: "session \<Rightarrow> 'q \<Rightarrow> exn + row list"
  be_fetchone :: "session \<Rightarrow> 'q \<Rightarrow> exn + row option"
  be_table :: "string \<Rightarrow> pydict \<Rightarrow> exn + db_row"
  be_add_error :: "session \<Rightarrow> db_row \<Rightarrow> exn option"
  be_commit_error :: "session \<Rightarrow> exn option"

text \<open>
  Modelled from the spec: \<open>session.add\<close>, \<open>session.commit\<close> and \<open>session.rollback\<close> of the
  backing store (section 6, "transactional row insertion with explicit commit/rollback").
  Each returns the exception it raised, if any, and the session it leaves behind.
\<close>

definition session_add :: "'q backend \<Rightarrow> session \<Rightarrow> db_row \<Rightarrow> exn option \<times> session" where
  "session_add be s r =
     (case be_add_error be s r of
        Some e \<Rightarrow> (Some e, s)
      | None \<Rightarrow> (None, s\<lparr> pending := pending s @ [r] \<rparr>))"

definition session_commit :: "'q backend \<Rightarrow> session \<Rightarrow> exn option \<times> session" where
  "session_commit be s =
     (case be_commit_error be s of
        Some e \<Rightarrow> (Some e, s)
      | None \<Rightarrow> (None, \<lparr> committed = committed s @ pending s, pending = [] \<rparr>))"

definition session_rollback :: "session \<Rightarrow> session" where
  "session_rollback s = s\<lparr> pending := [] \<rparr>"

subsection \<open>\<open>_get_model\<close>, \<open>_model_fits\<close>\<close>

definition get_model :: "driver \<Rightarrow> string \<Rightarrow> model option" where
  "get_model d location =
     (case map_of (models d) location of
        Some m \<Rightarrow> Some m
      | None \<Rightarrow>
          (case (case map_of (maps d) location of
                   None \<Rightarrow> None
                 | Some t \<Rightarrow> map_of (models d) t) of
             Some m \<Rightarrow> Some m
           | None \<Rightarrow>
               (case map_of (rev_map d) location of
                  None \<Rightarrow> None
                | Some k \<Rightarrow> map_of (models d) k)))"

definition model_fits :: "driver \<Rightarrow> string \<Rightarrow> exn + bool" where
  "model_fits d location =
     (case get_model d location of
        None \<Rightarrow> Inr False
      | Some m \<Rightarrow>
          (let keys = map fst (m_fields m)
           in case map_of (headers d) location of
                None \<Rightarrow> Inl (KeyError location)
              | Some cols \<Rightarrow> Inr (set cols \<subseteq> set keys)))"

subsection \<open>\<open>_result_to_output\<close>\<close>

text \<open>
  The comprehension \<open>{self.__headers[head][i]: v for i, v in enumerate(result)}\<close>: the
  header is looked up once per value, so an empty row never touches the headers.
\<close>

fun zip_headers ::
  "(string \<times> string list) list \<Rightarrow> string \<Rightarrow> nat \<Rightarrow> row \<Rightarrow> pydict \<Rightarrow> exn + pydict" where
  "zip_headers hs head i [] acc = Inr acc"
| "zip_headers hs head i (v # vs) acc =
     (case map_of hs head of
        None \<Rightarrow> Inl (KeyError head)
      | Some cols \<Rightarrow>
          if i < length cols
          then zip_headers hs head (Suc i) vs (AList.update (cols ! i) v acc)
          else Inl (IndexError ''tuple index out of range''))"

text \<open>\<open>instance.dict()\<close> and \<open>instance.dict(include=..., exclude=...)\<close>.\<close>

definition inst_dict :: "pyval \<Rightarrow> exn + pydict" where
  "inst_dict x =
     (case x of PInst mro flds \<Rightarrow> Inr flds
      | _ \<Rightarrow> Inl (AttributeError ''dict''))"

definition inst_dict_proj :: "pyval \<Rightarrow> string set \<Rightarrow> string set \<Rightarrow> exn + pydict" where
  "inst_dict_proj x incl excl =
     (case inst_dict x of
        Inl e \<Rightarrow> Inl e
      | Inr flds \<Rightarrow> Inr (filter (\<lambda>(k, v). k \<in> incl \<and> k \<notin> excl) flds))"

text \<open>One turn of the loop of \<open>_result_to_output\<close>: what is yielded for one row.\<close>

definition row_to_output :: "driver \<Rightarrow> string \<Rightarrow> model option \<Rightarrow> row \<Rightarrow> exn + pydict" where
  "row_to_output d head mdl result =
     (case zip_headers (headers d) head 0 result [] of
        Inl e \<Rightarrow> Inl e
      | Inr data \<Rightarrow>
          (case mdl of
             None \<Rightarrow> Inr data
           | Some m \<Rightarrow>
               (case model_call m data of Inl e \<Rightarrow> Inl e | Inr inst \<Rightarrow> inst_dict inst)))"

text \<open>
  \<open>_result_to_output\<close> is a generator function: calling it runs none of its body. The
  generator it returns holds its arguments and the rows not yet converted; an exception
  inside it finishes it.
\<close>

record generator =
  g_head :: string
  g_model :: "model option"
  g_rows :: "row list"

definition result_to_output :: "string \<Rightarrow> model option \<Rightarrow> row list \<Rightarrow> generator" where
  "result_to_output head mdl results = \<lparr> g_head = head, g_model = mdl, g_rows = results \<rparr>"

text \<open>\<open>next(g)\<close>: the record yielded or the exception raised, and the generator afterwards.\<close>

definition gen_next :: "driver \<Rightarrow> generator \<Rightarrow> (exn + pydict) \<times> generator" where
  "gen_next d g =
     (case g_rows g of
        [] \<Rightarrow> (Inl StopIteration, g)
      | r # rs \<Rightarrow>
          (case row_to_output d (g_head g) (g_model g) r of
             Inl e \<Rightarrow> (Inl e, g\<lparr> g_rows := [] \<rparr>)
           | Inr out \<Rightarrow> (Inr out, g\<lparr> g_rows := rs \<rparr>)))"

text \<open>The results of \<open>n\<close> successive calls of \<open>next(g)\<close>, in order.\<close>

primrec gen_take :: "driver \<Rightarrow> generator \<Rightarrow> nat \<Rightarrow> (exn + pydict) list" where
  "gen_take d g 0 = []"
| "gen_take d g (Suc n) = (case gen_next d g of (res, g1) \<Rightarrow> res # gen_take d g1 n)"

subsection \<open>\<open>fetch\<close>, \<open>fetch_one\<close>\<close>

text \<open>The first two statements of both: bind the model passed in if none is bound yet.\<close>

definition bind_model :: "driver \<Rightarrow> string \<Rightarrow> model option \<Rightarrow> driver" where
  "bind_model d location mdl =
     (case mdl of
        None \<Rightarrow> d
      | Some m \<Rightarrow>
          (case get_model d location of
             None \<Rightarrow> d\<lparr> models := AList.update location m (models d) \<rparr>
           | Some m' \<Rightarrow> d))"

text \<open>\<open>self.__maps.get(location, location)\<close>\<close>

definition table_of :: "driver \<Rightarrow> string \<Rightarrow> string" where
  "table_of d location = (case map_of (maps d) location of Some t \<Rightarrow> t | None \<Rightarrow> location)"

text \<open>The body of the \<open>try\<close> of \<open>fetch\<close>.\<close>

definition fetch_query :: "'q backend \<Rightarrow> session \<Rightarrow> string \<Rightarrow> string \<Rightarrow> int \<Rightarrow> exn + row list" where
  "fetch_query be s table condition limit_result =
     (case be_select be table of
        Inl e \<Rightarrow> Inl e
      | Inr q \<Rightarrow>
          (case (if condition \<noteq> [] then be_where be q condition else Inr q) of
             Inl e \<Rightarrow> Inl e
           | Inr q1 \<Rightarrow>
               (case (if limit_result > 0 then be_limit be q1 limit_result else Inr q1) of
                  Inl e \<Rightarrow> Inl e
                | Inr q2 \<Rightarrow> be_fetchall be s q2)))"

text \<open>What \<open>fetch\<close> returns: \<open>None\<close>, \<open>iter(results)\<close>, or the generator.\<close>

datatype fetched = Fetch_None | Fetch_rows "row list" | Fetch_gen generator

definition fetch ::
  "'q backend \<Rightarrow> driver \<Rightarrow> string \<Rightarrow> string \<Rightarrow> int \<Rightarrow> model option \<Rightarrow> bool \<Rightarrow> bool
     \<Rightarrow> (exn + fetched) \<times> driver" where
  "fetch be d location condition limit_result mdl no_handle ignore_model =
     (let d1 = bind_model d location mdl;
          mdl1 = get_model d1 location;
          table = table_of d1 location
      in case fetch_query be (db d1) table condition limit_result of
           Inl (SQLAlchemyError msg) \<Rightarrow>
             (Inr Fetch_None, d1\<lparr> stdout := stdout d1 @ [''Error fetching data: '' @ msg] \<rparr>)
         | Inl e \<Rightarrow> (Inl e, d1)
         | Inr results \<Rightarrow>
             if results = [] then (Inr Fetch_None, d1)
             else if no_handle then (Inr (Fetch_rows results), d1)
             else (Inr (Fetch_gen
                     (result_to_output table (if \<not> ignore_model then mdl1 else None) results)),
                   d1))"

text \<open>The body of the \<open>try\<close> of \<open>fetch_one\<close>; its condition defaults to \<open>None\<close>.\<close>

definition fetch_one_query ::
  "'q backend \<Rightarrow> session \<Rightarrow> string \<Rightarrow> string option \<Rightarrow> exn + row option" where
  "fetch_one_query be s table condition =
     (case be_select be table of
        Inl e \<Rightarrow> Inl e
      | Inr q \<Rightarrow>
          (case (case condition of
                   None \<Rightarrow> Inr q
                 | Some c \<Rightarrow> if c \<noteq> [] then be_where be q c else Inr q) of
             Inl e \<Rightarrow> Inl e
           | Inr q1 \<Rightarrow>
               (case be_limit be q1 1 of
                  Inl e \<Rightarrow> Inl e
                | Inr q2 \<Rightarrow> be_fetchone be s q2)))"

text \<open>What \<open>fetch_one\<close> returns: \<open>None\<close>, the raw row, or the converted record.\<close>

datatype fetched_one = One_None | One_row row | One_record pydict

definition fetch_one ::
  "'q backend \<Rightarrow> driver \<Rightarrow> string \<Rightarrow> string option \<Rightarrow> model option \<Rightarrow> bool \<Rightarrow> bool
     \<Rightarrow> (exn + fetched_one) \<times> driver" where
  "fetch_one be d location condition mdl no_handle ignore_model =
     (let d1 = bind_model d location mdl;
          mdl1 = get_model d1 location;
          table = table_of d1 location
      in case fetch_one_query be (db d1) table condition of
           Inl (SQLAlchemyError msg) \<Rightarrow>
             (Inr One_None, d1\<lparr> stdout := stdout d1 @ [''Error fetching data: '' @ msg] \<rparr>)
         | Inl e \<Rightarrow> (Inl e, d1)
         | Inr None \<Rightarrow> (Inr One_None, d1)
         | Inr (Some result) \<Rightarrow>
             if result = [] then (Inr One_None, d1)
             else if no_handle then (Inr (One_row result), d1)
             else
               (case fst (gen_next d1
                       (result_to_output table (if \<not> ignore_model then mdl1 else None) [result])) of
                  Inl e \<Rightarrow> (Inl e, d1)
                | Inr out \<Rightarrow> (Inr (One_record out), d1)))"

subsection \<open>\<open>export\<close>\<close>

text \<open>An item of the stream: a \<open>dict\<close>, or an instance of a model class.\<close>

datatype item = Item_dict pydict | Item_inst pyval

text \<open>\<open>include = include or set(self.__headers[location])\<close>: an empty set is falsy.\<close>

definition include_default :: "driver \<Rightarrow> string \<Rightarrow> string set option \<Rightarrow> exn + string set" where
  "include_default d location incl =
     (let falsy = (case incl of None \<Rightarrow> True | Some s \<Rightarrow> s = {})
      in if \<not> falsy then Inr (the incl)
         else (case map_of (headers d) location of
                 None \<Rightarrow> Inl (KeyError location)
               | Some cols \<Rightarrow> Inr (set cols)))"

text \<open>\<open>exclude = exclude or set()\<close>\<close>

definition exclude_default :: "string set option \<Rightarrow> string set" where
  "exclude_default excl = (case excl of None \<Rightarrow> {} | Some s \<Rightarrow> s)"

text \<open>
  The loop body before its \<open>try\<close>: coercion of a \<open>dict\<close> into the model, projection, and the
  row object of the table. Nothing here is caught.
\<close>

definition export_row ::
  "'q backend \<Rightarrow> driver \<Rightarrow> model option \<Rightarrow> string \<Rightarrow> string set \<Rightarrow> string set \<Rightarrow> item
     \<Rightarrow> exn + db_row" where
  "export_row be d mdl location incl excl data =
     (case (case data of
              Item_dict dct \<Rightarrow>
                (case mdl of
                   Some m \<Rightarrow> model_call m dct
                 | None \<Rightarrow> Inl (AttributeError ''dict''))
            | Item_inst x \<Rightarrow> Inr x) of
        Inl e \<Rightarrow> Inl e
      | Inr x \<Rightarrow>
          (case inst_dict_proj x incl excl of
             Inl e \<Rightarrow> Inl e
           | Inr data1 \<Rightarrow> be_table be (table_of d location) data1))"

text \<open>
  The \<open>try\<close> of the loop body: \<open>add\<close> then \<open>commit\<close>; on \<open>SQLAlchemyError\<close> print and roll
  back. Any other exception leaves the function.
\<close>

definition add_commit :: "'q backend \<Rightarrow> session \<Rightarrow> db_row \<Rightarrow> exn option \<times> session" where
  "add_commit be s inst =
     (case session_add be s inst of
        (Some e, s1) \<Rightarrow> (Some e, s1)
      | (None, s1) \<Rightarrow> session_commit be s1)"

definition export_try :: "'q backend \<Rightarrow> driver \<Rightarrow> db_row \<Rightarrow> exn option \<times> driver" where
  "export_try be d inst =
     (case add_commit be (db d) inst of
        (None, s) \<Rightarrow> (None, d\<lparr> db := s \<rparr>)
      | (Some (SQLAlchemyError msg), s) \<Rightarrow>
          (None, d\<lparr> db := session_rollback s,
                    stdout := stdout d @ [''Error exporting data: '' @ msg] \<rparr>)
      | (Some e, s) \<Rightarrow> (Some e, d\<lparr> db := s \<rparr>))"

fun export_loop ::
  "'q backend \<Rightarrow> model option \<Rightarrow> string \<Rightarrow> string set \<Rightarrow> string set \<Rightarrow> item list \<Rightarrow> driver
     \<Rightarrow> (exn + unit) \<times> driver" where
  "export_loop be mdl location incl excl [] d = (Inr (), d)"
| "export_loop be mdl location incl excl (data # rest) d =
     (case export_row be d mdl location incl excl data of
        Inl e \<Rightarrow> (Inl e, d)
      | Inr inst \<Rightarrow>
          (case export_try be d inst of
             (Some e, d1) \<Rightarrow> (Inl e, d1)
           | (None, d1) \<Rightarrow> export_loop be mdl location incl excl rest d1))"

definition export ::
  "'q backend \<Rightarrow> driver \<Rightarrow> string \<Rightarrow> item list \<Rightarrow> string set option \<Rightarrow> string set option
     \<Rightarrow> (exn + unit) \<times> driver" where
  "export be d location stream incl excl =
     (case model_fits d location of
        Inl e \<Rightarrow> (Inl e, d)
      | Inr False \<Rightarrow>
          (Inl (AssertionError ''Incorrect model or no model binded for this table''), d)
      | Inr True \<Rightarrow>
          (let mdl = get_model d location
           in case include_default d location incl of
                Inl e \<Rightarrow> (Inl e, d)
              | Inr incl1 \<Rightarrow>
                  export_loop be mdl location incl1 (exclude_default excl) stream d))"


section \<open>Concrete instances\<close>

text \<open>
  A small schema and an in-memory backend, on which the theorems below are evaluated:
  a model \<open>User\<close> with the integer primary key \<open>id\<close>, a table \<open>tbl_users\<close>, and a backend
  that knows only this table and refuses to commit a second row with \<open>id = 2\<close>.
\<close>

definition ex_int_field :: field where
  "ex_int_field v loc =
     (case v of
        PInt n \<Rightarrow> (PInt n, None)
      | _ \<Rightarrow> (v, Some (ErrorWrapper ''value is not a valid integer'' loc)))"

definition ex_config :: config where
  "ex_config = \<lparr> search_by = ''id'', exclude = [], partials = [(''buyer'', ''users'')],
                 invalidate_after = -1 \<rparr>"

definition ex_user_validate :: "pydict \<Rightarrow> exn + pydict" where
  "ex_user_validate data =
     (case map_of data ''id'' of
        None \<Rightarrow> Inl (ValidationError [ErrorWrapper ''field required'' ''id''] ''User'')
      | Some v \<Rightarrow>
          (case ex_int_field v ''id'' of
             (v1, None) \<Rightarrow> Inr [(''id'', v1)]
           | (v1, Some err) \<Rightarrow> Inl (ValidationError [err] ''User'')))"

definition ex_user :: model where
  "ex_user = \<lparr> m_name = ''User'', m_mro = [''User'', ''Model'', ''BaseModel''],
               m_config = ex_config, m_fields = [(''id'', ex_int_field)], m_partials = [],
               m_validate = ex_user_validate \<rparr>"

definition ex_decl :: "(string \<times> annotation) list \<Rightarrow> config_attr option \<Rightarrow> class_decl" where
  "ex_decl anns c =
     \<lparr> d_name = ''Order'', d_mro = [''Order'', ''Model'', ''BaseModel''],
       d_annotations = anns, d_config = c, d_fields = [(''id'', ex_int_field)],
       d_validate = ex_user_validate \<rparr>"

definition ex_Config_init :: "pydict \<Rightarrow> exn + config" where
  "ex_Config_init r =
     (case map_of r ''search_by'' of
        Some (PStr s) \<Rightarrow>
          Inr \<lparr> search_by = s, exclude = [], partials = [], invalidate_after = -1 \<rparr>
      | _ \<Rightarrow> Inl (ValidationError [ErrorWrapper ''field required'' ''search_by''] ''Config''))"

type_synonym ex_query = "string \<times> string \<times> int"

definition ex_rows :: "session \<Rightarrow> string \<Rightarrow> row list" where
  "ex_rows s t = map (\<lambda>r. map snd (snd r)) (filter (\<lambda>r. fst r = t) (committed s))"

definition ex_backend :: "ex_query backend" where
  "ex_backend =
     \<lparr> be_select = (\<lambda>t. Inr (t, [], -1)),
       be_where = (\<lambda>q c. Inr (fst q, c, snd (snd q))),
       be_limit = (\<lambda>q n. Inr (fst q, fst (snd q), n)),
       be_fetchall = (\<lambda>s q.
          if fst q = ''tbl_users'' then Inr (ex_rows s (fst q))
          else Inl (SQLAlchemyError (''no such table: '' @ fst q))),
       be_fetchone = (\<lambda>s q.
          if fst q = ''tbl_users''
          then Inr (case ex_rows s (fst q) of [] \<Rightarrow> None | r # rs \<Rightarrow> Some r)
          else Inl (SQLAlchemyError (''no such table: '' @ fst q))),
       be_table = (\<lambda>t data. Inr (t, data)),
       be_add_error = (\<lambda>s r. None),
       be_commit_error = (\<lambda>s.
          if (''tbl_users'', [(''id'', PInt 2)]) \<in> set (pending s)
          then Some (SQLAlchemyError ''UNIQUE constraint failed: tbl_users.id'')
          else None) \<rparr>"

definition ex_session :: "db_row list \<Rightarrow> session" where
  "ex_session rows = \<lparr> committed = rows, pending = [] \<rparr>"

definition ex_driver :: "db_row list \<Rightarrow> (string \<times> string) list \<Rightarrow> driver" where
  "ex_driver rows model_maps =
     driver_init (ex_session rows) [(''tbl_users'', [''id''])] [(''tbl_users'', ex_user)] model_maps"

section \<open>The location map\<close>

lemmas ex_defs = ex_driver_def driver_init_def ex_session_def dict_update_def invert_dict_def


lemma map_of_foldl_update:
  "map_of (foldl (\<lambda>acc (k, v). AList.update k v acc) acc xs) = map_of (rev xs @ acc)"
proof (induction xs arbitrary: acc)
  case Nil
  show ?case by simp
next
  case (Cons p ps)
  obtain k v where p: "p = (k, v)" by (cases p)
  have "map_of (rev ps @ AList.update k v acc) = map_of (rev ps @ [(k, v)] @ acc)"
    by (simp add: update_conv')
  with Cons.IH [of "AList.update k v acc"] p show ?case by simp
qed

lemma distinct_foldl_update:
  "distinct (map fst acc) \<Longrightarrow>
   distinct (map fst (foldl (\<lambda>acc (k, v). AList.update k v acc) acc xs))"
proof (induction xs arbitrary: acc)
  case Nil
  then show ?case by simp
next
  case (Cons p ps)
  obtain k v where p: "p = (k, v)" by (cases p)
  from Cons.prems have "distinct (map fst (AList.update k v acc))"
    by (rule distinct_update)
  from Cons.IH [OF this] p show ?case by simp
qed

lemma distinct_dict_update:
  "distinct (map fst d) \<Longrightarrow> distinct (map fst (dict_update d kwds))"
  unfolding dict_update_def by (rule distinct_foldl_update)

lemma map_of_invert_dict:
  "map_of (invert_dict d) = map_of (rev (map (\<lambda>(k, v). (v, k)) d))"
proof -
  have "foldl (\<lambda>acc (k, v). AList.update v k acc) acc d =
        foldl (\<lambda>acc (k, v). AList.update k v acc) acc (map (\<lambda>(k, v). (v, k)) d)" for acc
    by (induction d arbitrary: acc) (auto split: prod.splits)
  then show ?thesis
    unfolding invert_dict_def by (simp add: map_of_foldl_update rev_map)
qed

text \<open>Every table name that occurs in the dictionary has an entry in its inverse, and that
  entry is one of the keys stored with it.\<close>

lemma invert_dict_some:
  assumes "(k, v) \<in> set d"
  shows "\<exists>k'. map_of (invert_dict d) v = Some k' \<and> (k', v) \<in> set d"
proof -
  let ?sw = "rev (map (\<lambda>(k, v). (v, k)) d)"
  from assms have "(v, k) \<in> set ?sw" by force
  then obtain k' where k': "map_of ?sw v = Some k'"
    using weak_map_of_SomeI by fastforce
  then have "(v, k') \<in> set ?sw" by (rule map_of_SomeD)
  then have "(k', v) \<in> set d" by auto
  with k' show ?thesis by (auto simp: map_of_invert_dict)
qed

lemma maps_distinct_run:
  "distinct (map fst (maps d)) \<Longrightarrow> distinct (map fst (maps (foldl map_to_model d calls)))"
proof (induction calls arbitrary: d)
  case Nil
  then show ?case by simp
next
  case (Cons c cs)
  have "distinct (map fst (maps (map_to_model d c)))"
    using Cons.prems by (simp add: map_to_model_def Let_def distinct_dict_update)
  from Cons.IH [OF this] show ?case by simp
qed

lemma rev_map_run:
  "rev_map d = invert_dict (maps d) \<Longrightarrow>
   rev_map (foldl map_to_model d calls) = invert_dict (maps (foldl map_to_model d calls))"
proof (induction calls arbitrary: d)
  case Nil
  then show ?case by simp
next
  case (Cons c cs)
  have "rev_map (map_to_model d c) = invert_dict (maps (map_to_model d c))"
    by (simp add: map_to_model_def Let_def)
  from Cons.IH [OF this] show ?case by simp
qed

lemma map_of_rev_swap_last:
  "filter (\<lambda>(k', v'). v' = v) d \<noteq> [] \<Longrightarrow>
   map_of (rev (map (\<lambda>(k, v). (v, k)) d)) v = Some (fst (last (filter (\<lambda>(k', v'). v' = v) d)))"
proof (induction d)
  case Nil
  then show ?case by simp
next
  case (Cons p ps)
  obtain a b where p: "p = (a, b)" by (cases p)
  show ?case
  proof (cases "filter (\<lambda>(k', v'). v' = v) ps = []")
    case True
    then have "\<forall>x \<in> set ps. snd x \<noteq> v" by (auto simp: filter_empty_conv)
    then have "v \<notin> fst ` set (rev (map (\<lambda>(k, v). (v, k)) ps))" by force
    then have "map_of (rev (map (\<lambda>(k, v). (v, k)) ps)) v = None"
      by (simp add: map_of_eq_None_iff)
    with True Cons.prems p show ?thesis by (auto simp: map_add_def split: if_splits)
  next
    case False
    from Cons.IH [OF False] False p show ?thesis by (simp add: map_add_def)
  qed
qed

text \<open>
  C3 (as amended). After the constructor and any sequence of \<open>map_to_model\<close> calls, for every
  pair \<open>(k, v)\<close> of \<open>maps\<close>: \<open>rev_map[v]\<close> exists and is a key that \<open>maps\<close> sends to \<open>v\<close>; it is
  the key of the last pair of \<open>maps\<close>, in insertion order, whose table is \<open>v\<close>; and it is \<open>k\<close>
  itself whenever no other key of \<open>maps\<close> has the table \<open>v\<close>.
\<close>

theorem map_to_model_rev_map:
  fixes s reflected ms model_maps calls
  assumes dist: "distinct (map fst model_maps)"
  defines "d \<equiv> foldl map_to_model (driver_init s reflected ms model_maps) calls"
  assumes kv: "map_of (maps d) k = Some v"
  shows "(\<exists>k'. map_of (rev_map d) v = Some k' \<and> map_of (maps d) k' = Some v)
       \<and> map_of (rev_map d) v = Some (fst (last (filter (\<lambda>(k', v'). v' = v) (maps d))))
       \<and> ((\<forall>k'. map_of (maps d) k' = Some v \<longrightarrow> k' = k) \<longrightarrow> map_of (rev_map d) v = Some k)"
proof -
  have init: "rev_map (driver_init s reflected ms model_maps)
              = invert_dict (maps (driver_init s reflected ms model_maps))"
    by (simp add: driver_init_def)
  have rm: "rev_map d = invert_dict (maps d)"
    unfolding d_def using init by (rule rev_map_run)
  have dd: "distinct (map fst (maps d))"
    unfolding d_def by (rule maps_distinct_run) (simp add: driver_init_def dist)
  from kv have mem: "(k, v) \<in> set (maps d)" by (rule map_of_SomeD)
  from invert_dict_some [OF mem] obtain k' where
    k': "map_of (invert_dict (maps d)) v = Some k'" and mem': "(k', v) \<in> set (maps d)"
    by blast
  from mem' dd have inv: "map_of (maps d) k' = Some v" by simp
  from mem have ne: "filter (\<lambda>(k', v'). v' = v) (maps d) \<noteq> []"
    by (auto simp: filter_empty_conv)
  have lst: "map_of (rev_map d) v = Some (fst (last (filter (\<lambda>(k', v'). v' = v) (maps d))))"
    using map_of_rev_swap_last [OF ne] by (simp add: rm map_of_invert_dict)
  from k' inv rm lst show ?thesis by auto
qed

theorem map_to_model_rev_map_witness:
  "distinct (map fst ([] :: (string \<times> string) list))
   \<and> map_of (maps (foldl map_to_model
        (driver_init \<lparr>committed = [], pending = []\<rparr> [] [] [])
        [[(''a'', ''t''), (''b'', ''t'')], [(''c'', ''u'')]])) ''c'' = Some ''u''
   \<and> map_of (rev_map (foldl map_to_model
        (driver_init \<lparr>committed = [], pending = []\<rparr> [] [] [])
        [[(''a'', ''t''), (''b'', ''t'')], [(''c'', ''u'')]])) ''u'' = Some ''c''"
  using map_to_model_rev_map [of "[]" "\<lparr>committed = [], pending = []\<rparr>" "[]" "[]"
      "[[(''a'', ''t''), (''b'', ''t'')], [(''c'', ''u'')]]" "''c''" "''u''"]
  by (simp add: driver_init_def map_to_model_def dict_update_def invert_dict_def)

text \<open>
  C3 as stated fails when two keys share a table: after \<open>map_to_model(a='t', b='t')\<close> the
  pair \<open>('a', 't')\<close> is in \<open>maps\<close>, and \<open>rev_map['t']\<close> is \<open>'b'\<close>.
\<close>

theorem rev_map_inverse_counterexample:
  "map_of (maps (map_to_model (driver_init \<lparr>committed = [], pending = []\<rparr> [] [] [])
        [(''a'', ''t''), (''b'', ''t'')])) ''a'' = Some ''t''
   \<and> map_of (rev_map (map_to_model (driver_init \<lparr>committed = [], pending = []\<rparr> [] [] [])
        [(''a'', ''t''), (''b'', ''t'')])) ''t'' \<noteq> Some ''a''"
  by (simp add: driver_init_def map_to_model_def dict_update_def invert_dict_def)

section \<open>Class definition and partial references\<close>

lemma read_partials_ok:
  "\<forall>(k, a) \<in> set anns. \<forall>t. a = PartialRef_of t \<longrightarrow> (\<exists>n. t = Model_class n) \<Longrightarrow>
   read_partials anns = Inr (map fst (filter (\<lambda>(k, a). a \<noteq> Other_annotation) anns))"
  by (induction anns rule: read_partials.induct) auto

lemma sublist_join:
  "f \<in> set xs \<Longrightarrow> sublist f (join sep xs)"
proof (induction sep xs rule: join.induct)
  case (1 sep)
  then show ?case by simp
next
  case (2 sep x)
  then show ?case by simp
next
  case (3 sep x y ys)
  show ?case
  proof (cases "f = x")
    case True
    then show ?thesis by (simp add: sublist_def) (metis append_Nil)
  next
    case False
    with 3 have "sublist f (join sep (y # ys))" by auto
    then show ?thesis
      unfolding sublist_def join.simps by (metis append_assoc)
  qed
qed

lemma verify_partials_config:
  "verify_partials cfg decl = Inr m \<Longrightarrow> m_config m = cfg"
  by (auto simp: verify_partials_def Let_def split: sum.splits if_splits)

text \<open>
  C1. Let \<open>M\<close> be the model that a partial field refers to, and let \<open>Config.search_by\<close> of \<open>M\<close>
  name one of its fields. Validating an instance of \<open>M\<close> returns that instance unchanged.
  Validating any other value runs the validation of \<open>M\<close>'s primary-key field on it: if that
  succeeds, the result is the coerced primary-key value; if it fails, a validation error
  that carries the field's error is raised.
\<close>

theorem PartialRef_validate_coerces:
  assumes "map_of (m_fields tp) (search_by (m_config tp)) = Some primary_field"
  shows "(isinstance v tp \<longrightarrow> PartialRef_validate tp v = Inr v)
       \<and> (\<not> isinstance v tp \<longrightarrow>
            (\<forall>valid_value. primary_field v (search_by (m_config tp)) = (valid_value, None)
                \<longrightarrow> PartialRef_validate tp v = Inr valid_value)
          \<and> (\<forall>valid_value err. primary_field v (search_by (m_config tp)) = (valid_value, Some err)
                \<longrightarrow> PartialRef_validate tp v = Inl (ValidationError [err] ''PartialRef'')))"
  using assms by (simp add: PartialRef_validate_def Let_def)

theorem PartialRef_validate_coerces_witness:
  "map_of (m_fields ex_user) (search_by (m_config ex_user)) = Some ex_int_field
   \<and> PartialRef_validate ex_user (PInst [''User'', ''Model'', ''BaseModel''] [(''id'', PInt 1)])
       = Inr (PInst [''User'', ''Model'', ''BaseModel''] [(''id'', PInt 1)])
   \<and> PartialRef_validate ex_user (PInt 7) = Inr (PInt 7)
   \<and> PartialRef_validate ex_user (PStr ''abc'')
       = Inl (ValidationError [ErrorWrapper ''value is not a valid integer'' ''id''] ''PartialRef'')"
  using PartialRef_validate_coerces
          [of ex_user ex_int_field "PInst [''User'', ''Model'', ''BaseModel''] [(''id'', PInt 1)]"]
        PartialRef_validate_coerces [of ex_user ex_int_field "PInt 7"]
        PartialRef_validate_coerces [of ex_user ex_int_field "PStr ''abc''"]
  by (simp add: ex_user_def ex_config_def ex_int_field_def isinstance_def)

text \<open>
  C6. When a model class is declared: without a \<open>_config\<close> the declaration fails with the
  missing-configuration error; a \<open>Config\<close> instance is the configuration that the partial
  check and the class then use; a mapping is first turned into a \<open>Config\<close>, which is then used
  the same way. A class that was created has a configuration that came by one of these two
  routes.
\<close>

theorem init_subclass_config_resolution:
  "(d_config decl = None \<longrightarrow>
      init_subclass Config_init decl = Inl (ModalMissingConfig ''_config variable not found''))
   \<and> (\<forall>cfg. d_config decl = Some (Cfg_config cfg) \<longrightarrow>
          init_subclass Config_init decl = verify_partials cfg decl)
   \<and> (\<forall>r cfg. d_config decl = Some (Cfg_dict r) \<and> Config_init r = Inr cfg \<longrightarrow>
          init_subclass Config_init decl = verify_partials cfg decl)
   \<and> (\<forall>m. init_subclass Config_init decl = Inr m \<longrightarrow>
          d_config decl = Some (Cfg_config (m_config m))
          \<or> (\<exists>r. d_config decl = Some (Cfg_dict r) \<and> Config_init r = Inr (m_config m)))"
  by (auto simp: init_subclass_def split: option.splits config_attr.splits sum.splits
           dest: verify_partials_config)

theorem init_subclass_config_resolution_witness:
  "d_config (ex_decl [(''id'', Other_annotation)] None) = None
   \<and> init_subclass ex_Config_init (ex_decl [(''id'', Other_annotation)] None)
       = Inl (ModalMissingConfig ''_config variable not found'')
   \<and> init_subclass ex_Config_init
         (ex_decl [(''id'', Other_annotation), (''buyer'', PartialRef_of (Model_class ''User''))]
            (Some (Cfg_config ex_config)))
       = Inr \<lparr> m_name = ''Order'', m_mro = [''Order'', ''Model'', ''BaseModel''],
               m_config = ex_config, m_fields = [(''id'', ex_int_field)],
               m_partials = [''buyer''], m_validate = ex_user_validate \<rparr>
   \<and> ex_Config_init [(''search_by'', PStr ''id'')]
       = Inr \<lparr> search_by = ''id'', exclude = [], partials = [], invalidate_after = -1 \<rparr>
   \<and> init_subclass ex_Config_init
         (ex_decl [(''id'', Other_annotation)] (Some (Cfg_dict [(''search_by'', PStr ''id'')])))
       = Inr \<lparr> m_name = ''Order'', m_mro = [''Order'', ''Model'', ''BaseModel''],
               m_config = \<lparr> search_by = ''id'', exclude = [], partials = [],
                             invalidate_after = -1 \<rparr>,
               m_fields = [(''id'', ex_int_field)], m_partials = [],
               m_validate = ex_user_validate \<rparr>"
proof -
  let ?none = "ex_decl [(''id'', Other_annotation)] None"
  let ?inst = "ex_decl [(''id'', Other_annotation), (''buyer'', PartialRef_of (Model_class ''User''))]
                 (Some (Cfg_config ex_config))"
  let ?dict = "ex_decl [(''id'', Other_annotation)] (Some (Cfg_dict [(''search_by'', PStr ''id'')]))"
  let ?cfg = "\<lparr> search_by = ''id'', exclude = [], partials = [], invalidate_after = -1 \<rparr>"
  have n: "d_config ?none = None" by (simp add: ex_decl_def)
  have a: "init_subclass ex_Config_init ?none
           = Inl (ModalMissingConfig ''_config variable not found'')"
    using init_subclass_config_resolution [of ?none ex_Config_init, THEN conjunct1] n by simp
  have "init_subclass ex_Config_init ?inst = verify_partials ex_config ?inst"
    using init_subclass_config_resolution
            [of ?inst ex_Config_init, THEN conjunct2, THEN conjunct1, THEN spec, of ex_config]
    by (simp add: ex_decl_def)
  then have b: "init_subclass ex_Config_init ?inst
           = Inr \<lparr> m_name = ''Order'', m_mro = [''Order'', ''Model'', ''BaseModel''],
               m_config = ex_config, m_fields = [(''id'', ex_int_field)],
               m_partials = [''buyer''], m_validate = ex_user_validate \<rparr>"
    by (simp add: verify_partials_def ex_decl_def ex_config_def)
  have c: "ex_Config_init [(''search_by'', PStr ''id'')] = Inr ?cfg"
    by (simp add: ex_Config_init_def)
  have "init_subclass ex_Config_init ?dict = verify_partials ?cfg ?dict"
    using init_subclass_config_resolution
            [of ?dict ex_Config_init, THEN conjunct2, THEN conjunct2, THEN conjunct1,
             THEN spec, THEN spec, of "[(''search_by'', PStr ''id'')]" ?cfg] c
    by (simp add: ex_decl_def)
  then have d: "init_subclass ex_Config_init ?dict
           = Inr \<lparr> m_name = ''Order'', m_mro = [''Order'', ''Model'', ''BaseModel''],
               m_config = ?cfg, m_fields = [(''id'', ex_int_field)], m_partials = [],
               m_validate = ex_user_validate \<rparr>"
    by (simp add: verify_partials_def ex_decl_def)
  from n a b c d show ?thesis by blast
qed

text \<open>
  C5. Let every \<open>PartialRef\<close> annotation of a declaration refer to a model class and let its
  configuration resolve to \<open>cfg\<close>. If some partial field is not a key of \<open>cfg.partials\<close>, the
  declaration fails, so no class and no instance of it exists, and the error message lists
  every missing field name, in declaration order, not only the first.
\<close>

theorem verify_partials_names_all_missing:
  fixes decl :: class_decl and cfg :: config and Config_init
  defines "partial_fields \<equiv> map fst (filter (\<lambda>(k, a). a \<noteq> Other_annotation) (d_annotations decl))"
  defines "missing \<equiv> filter (\<lambda>i. map_of (partials cfg) i = None) partial_fields"
  assumes refs: "\<forall>(k, a) \<in> set (d_annotations decl). \<forall>t. a = PartialRef_of t \<longrightarrow> (\<exists>n. t = Model_class n)"
    and cfg: "d_config decl = Some (Cfg_config cfg)
              \<or> (\<exists>r. d_config decl = Some (Cfg_dict r) \<and> Config_init r = Inr cfg)"
    and miss: "missing \<noteq> []"
  shows "init_subclass Config_init decl =
           Inl (ValueError (''Missing partial definitions for: '' @ join '', '' missing))
       \<and> (\<forall>f \<in> set missing.
             sublist f (''Missing partial definitions for: '' @ join '', '' missing))"
proof -
  have rp: "read_partials (d_annotations decl) = Inr partial_fields"
    unfolding partial_fields_def using refs by (rule read_partials_ok)
  have vp: "verify_partials cfg decl =
              Inl (ValueError (''Missing partial definitions for: '' @ join '', '' missing))"
    using miss by (simp add: verify_partials_def rp Let_def missing_def)
  have "init_subclass Config_init decl = verify_partials cfg decl"
    using cfg by (auto simp: init_subclass_def)
  with vp have 1: "init_subclass Config_init decl =
           Inl (ValueError (''Missing partial definitions for: '' @ join '', '' missing))"
    by simp
  have 2: "sublist f (''Missing partial definitions for: '' @ join '', '' missing)"
    if "f \<in> set missing" for f
    using sublist_join [OF that, of "'', ''"] unfolding sublist_def by (metis append_assoc)
  from 1 2 show ?thesis by blast
qed

theorem verify_partials_names_all_missing_witness:
  "init_subclass ex_Config_init
     (ex_decl [(''id'', Other_annotation), (''owner'', PartialRef_of (Model_class ''User'')),
               (''buyer'', PartialRef_of (Model_class ''User'')),
               (''seller'', PartialRef_of (Model_class ''User''))]
        (Some (Cfg_config ex_config)))
     = Inl (ValueError ''Missing partial definitions for: owner, seller'')
   \<and> sublist ''owner'' ''Missing partial definitions for: owner, seller''
   \<and> sublist ''seller'' ''Missing partial definitions for: owner, seller''"
  using verify_partials_names_all_missing
          [of "ex_decl [(''id'', Other_annotation), (''owner'', PartialRef_of (Model_class ''User'')),
               (''buyer'', PartialRef_of (Model_class ''User'')),
               (''seller'', PartialRef_of (Model_class ''User''))]
                 (Some (Cfg_config ex_config))" ex_config ex_Config_init]
  by (simp add: ex_decl_def ex_config_def)

section \<open>Fetch and export\<close>

text \<open>
  C4. If building or running the query of \<open>fetch\<close> raises a \<open>SQLAlchemyError\<close>, \<open>fetch\<close> prints
  the error and returns \<open>None\<close>; if the query returns no rows, \<open>fetch\<close> returns \<open>None\<close>. The same
  holds for \<open>fetch_one\<close>.
\<close>

theorem fetch_swallows_backend_error:
  fixes be :: "'q backend" and d location mdl
  defines "d1 \<equiv> bind_model d location mdl"
  shows "(\<forall>msg. fetch_query be (db d1) (table_of d1 location) condition limit_result
                 = Inl (SQLAlchemyError msg) \<longrightarrow>
            fetch be d location condition limit_result mdl no_handle ignore_model
              = (Inr Fetch_None, d1\<lparr> stdout := stdout d1 @ [''Error fetching data: '' @ msg] \<rparr>))
       \<and> (fetch_query be (db d1) (table_of d1 location) condition limit_result = Inr [] \<longrightarrow>
            fetch be d location condition limit_result mdl no_handle ignore_model
              = (Inr Fetch_None, d1))
       \<and> (\<forall>msg. fetch_one_query be (db d1) (table_of d1 location) cond
                 = Inl (SQLAlchemyError msg) \<longrightarrow>
            fetch_one be d location cond mdl no_handle ignore_model
              = (Inr One_None, d1\<lparr> stdout := stdout d1 @ [''Error fetching data: '' @ msg] \<rparr>))
       \<and> (fetch_one_query be (db d1) (table_of d1 location) cond = Inr None \<longrightarrow>
            fetch_one be d location cond mdl no_handle ignore_model = (Inr One_None, d1))"
  by (simp add: fetch_def fetch_one_def Let_def d1_def)

theorem fetch_swallows_backend_error_witness:
  "fetch ex_backend (ex_driver [] [(''users'', ''tbl'')]) ''users'' [] (-1) None False False
     = (Inr Fetch_None,
        (ex_driver [] [(''users'', ''tbl'')])
          \<lparr> stdout := [''Error fetching data: no such table: tbl''] \<rparr>)
   \<and> fetch ex_backend (ex_driver [] []) ''tbl_users'' [] (-1) None False False
     = (Inr Fetch_None, ex_driver [] [])
   \<and> fetch_one ex_backend (ex_driver [] [(''users'', ''tbl'')]) ''users'' None None False False
     = (Inr One_None,
        (ex_driver [] [(''users'', ''tbl'')])
          \<lparr> stdout := [''Error fetching data: no such table: tbl''] \<rparr>)
   \<and> fetch_one ex_backend (ex_driver [] []) ''tbl_users'' None None False False
     = (Inr One_None, ex_driver [] [])"
proof -
  let ?bad = "ex_driver [] [(''users'', ''tbl'')]"
  let ?ok = "ex_driver [] []"
  have b: "bind_model ?bad ''users'' None = ?bad" "bind_model ?ok ''tbl_users'' None = ?ok"
    by (simp_all add: bind_model_def)
  have t: "table_of ?bad ''users'' = ''tbl''" "table_of ?ok ''tbl_users'' = ''tbl_users''"
    by (simp_all add: table_of_def ex_defs)
  have s: "stdout ?bad = []" "db ?bad = ex_session []" "db ?ok = ex_session []"
    by (simp_all add: ex_defs)
  have q1: "fetch_query ex_backend (ex_session []) ''tbl'' [] (-1)
            = Inl (SQLAlchemyError ''no such table: tbl'')"
    by (simp add: fetch_query_def ex_backend_def)
  have q2: "fetch_query ex_backend (ex_session []) ''tbl_users'' [] (-1) = Inr []"
    by (simp add: fetch_query_def ex_backend_def ex_rows_def ex_session_def)
  have q3: "fetch_one_query ex_backend (ex_session []) ''tbl'' None
            = Inl (SQLAlchemyError ''no such table: tbl'')"
    by (simp add: fetch_one_query_def ex_backend_def)
  have q4: "fetch_one_query ex_backend (ex_session []) ''tbl_users'' None = Inr None"
    by (simp add: fetch_one_query_def ex_backend_def ex_rows_def ex_session_def)
  have 1: "fetch ex_backend ?bad ''users'' [] (-1) None False False
     = (Inr Fetch_None, ?bad \<lparr> stdout := [''Error fetching data: no such table: tbl''] \<rparr>)"
    using fetch_swallows_backend_error
            [where be = ex_backend and d = ?bad and location = "''users''" and mdl = None
               and condition = "[]" and limit_result = "-1" and no_handle = False
               and ignore_model = False, THEN conjunct1, THEN spec,
             of "''no such table: tbl''"]
    by (simp add: b t s q1)
  have 2: "fetch ex_backend ?ok ''tbl_users'' [] (-1) None False False = (Inr Fetch_None, ?ok)"
    using fetch_swallows_backend_error
            [where be = ex_backend and d = ?ok and location = "''tbl_users''" and mdl = None
               and condition = "[]" and limit_result = "-1" and no_handle = False
               and ignore_model = False, THEN conjunct2, THEN conjunct1]
    by (simp add: b t s q2)
  have 3: "fetch_one ex_backend ?bad ''users'' None None False False
     = (Inr One_None, ?bad \<lparr> stdout := [''Error fetching data: no such table: tbl''] \<rparr>)"
    using fetch_swallows_backend_error
            [where be = ex_backend and d = ?bad and location = "''users''" and mdl = None
               and cond = None and no_handle = False
               and ignore_model = False, THEN conjunct2, THEN conjunct2, THEN conjunct1, THEN spec,
             of "''no such table: tbl''"]
    by (simp add: b t s q3)
  have 4: "fetch_one ex_backend ?ok ''tbl_users'' None None False False = (Inr One_None, ?ok)"
    using fetch_swallows_backend_error
            [where be = ex_backend and d = ?ok and location = "''tbl_users''" and mdl = None
               and cond = None and no_handle = False
               and ignore_model = False, THEN conjunct2, THEN conjunct2, THEN conjunct2]
    by (simp add: b t s q4)
  from 1 2 3 4 show ?thesis by blast
qed

lemma fetch_query_fails:
  "be_select be table = Inl e \<Longrightarrow> fetch_query be s table condition limit_result = Inl e"
  "be_select be table = Inr q \<Longrightarrow> condition \<noteq> [] \<Longrightarrow> be_where be q condition = Inl e \<Longrightarrow>
     fetch_query be s table condition limit_result = Inl e"
  by (simp_all add: fetch_query_def)

text \<open>
  What the assertion at the head of \<open>export\<close> gives, the headers being read under the
  caller's location: if no model is bound for the location, or the columns stored under the
  location are not all fields of the bound model, \<open>export\<close> fails with the assertion error
  and leaves the driver, its session and its output as they were; whenever \<open>_model_fits\<close>
  does not return true, \<open>export\<close> raises and changes nothing.
\<close>

lemma export_requires_model_fits:
  "((get_model d location = None
      \<or> (\<exists>m cols. get_model d location = Some m \<and> map_of (headers d) location = Some cols
             \<and> \<not> set cols \<subseteq> set (map fst (m_fields m)))) \<longrightarrow>
     export be d location stream incl excl
       = (Inl (AssertionError ''Incorrect model or no model binded for this table''), d))
   \<and> (model_fits d location \<noteq> Inr True \<longrightarrow>
        (\<exists>e. export be d location stream incl excl = (Inl e, d)))"
  by (auto simp: export_def model_fits_def Let_def split: option.splits sum.splits bool.splits)

text \<open>
  C8 (as amended). \<open>_model_fits\<close> and \<open>export\<close> look the caller's location up in the headers
  as it is. For a location that is not a key of the headers: if a model is bound for it,
  \<open>_model_fits\<close> raises \<open>KeyError\<close> and so does \<open>export\<close>, before any item; if no model is bound,
  \<open>_model_fits\<close> returns false and \<open>export\<close> fails with the assertion error.
\<close>

theorem model_fits_unmapped_location:
  assumes "map_of (headers d) location = None"
  shows "(\<forall>m. get_model d location = Some m \<longrightarrow>
            model_fits d location = Inl (KeyError location)
            \<and> export be d location stream incl excl = (Inl (KeyError location), d))
       \<and> (get_model d location = None \<longrightarrow>
            model_fits d location = Inr False
            \<and> export be d location stream incl excl
                = (Inl (AssertionError ''Incorrect model or no model binded for this table''), d))"
  using assms by (simp add: export_def model_fits_def Let_def)

theorem model_fits_unmapped_location_witness:
  "map_of (maps (ex_driver [] [(''users'', ''tbl_users'')])) ''users'' = Some ''tbl_users''
   \<and> map_of (headers (ex_driver [] [(''users'', ''tbl_users'')])) ''tbl_users'' = Some [''id'']
   \<and> map_of (headers (ex_driver [] [(''users'', ''tbl_users'')])) ''users'' = None
   \<and> get_model (ex_driver [] [(''users'', ''tbl_users'')]) ''users'' = Some ex_user
   \<and> model_fits (ex_driver [] [(''users'', ''tbl_users'')]) ''users'' = Inl (KeyError ''users'')
   \<and> export ex_backend (ex_driver [] [(''users'', ''tbl_users'')]) ''users''
         [Item_dict [(''id'', PInt 1)]] None None
       = (Inl (KeyError ''users''), ex_driver [] [(''users'', ''tbl_users'')])
   \<and> get_model (ex_driver [] []) ''orders'' = None
   \<and> model_fits (ex_driver [] []) ''orders'' = Inr False"
proof -
  let ?mapped = "ex_driver [] [(''users'', ''tbl_users'')]"
  let ?d = "ex_driver [] []"
  let ?stream = "[Item_dict [(''id'', PInt 1)]]"
  have m: "map_of (maps ?mapped) ''users'' = Some ''tbl_users''"
    and h1: "map_of (headers ?mapped) ''tbl_users'' = Some [''id'']"
    and h2: "map_of (headers ?mapped) ''users'' = None"
    and h3: "map_of (headers ?d) ''orders'' = None"
    by (simp_all add: ex_defs)
  have gm: "get_model ?mapped ''users'' = Some ex_user"
    by (simp add: get_model_def ex_defs)
  have g: "get_model ?d ''orders'' = None"
    by (simp add: get_model_def ex_defs)
  have a: "model_fits ?mapped ''users'' = Inl (KeyError ''users'')
           \<and> export ex_backend ?mapped ''users'' ?stream None None
               = (Inl (KeyError ''users''), ?mapped)"
    using model_fits_unmapped_location [OF h2, of ex_backend ?stream None None, THEN conjunct1] gm
    by blast
  have b: "model_fits ?d ''orders'' = Inr False"
    using model_fits_unmapped_location [OF h3, of ex_backend ?stream None None, THEN conjunct2] g
    by blast
  from m h1 h2 gm a g b show ?thesis by blast
qed

text \<open>
  C8 as stated fails when no model is bound for the location: \<open>users\<close> is mapped to the
  table \<open>tbl_users\<close> and is not a key of the headers, yet \<open>_model_fits\<close> returns false without
  touching the headers, and \<open>export\<close> fails with the assertion error, not a lookup error.
\<close>

theorem model_fits_lookup_error_counterexample:
  "map_of (maps ((ex_driver [] [(''users'', ''tbl_users'')]) \<lparr> models := [] \<rparr>)) ''users''
     = Some ''tbl_users''
   \<and> map_of (headers ((ex_driver [] [(''users'', ''tbl_users'')]) \<lparr> models := [] \<rparr>)) ''users''
     = None
   \<and> model_fits ((ex_driver [] [(''users'', ''tbl_users'')]) \<lparr> models := [] \<rparr>) ''users''
     = Inr False
   \<and> export ex_backend ((ex_driver [] [(''users'', ''tbl_users'')]) \<lparr> models := [] \<rparr>) ''users''
         [Item_dict [(''id'', PInt 1)]] None None
     = (Inl (AssertionError ''Incorrect model or no model binded for this table''),
        (ex_driver [] [(''users'', ''tbl_users'')]) \<lparr> models := [] \<rparr>)"
  by (simp add: export_def model_fits_def get_model_def ex_defs)




lemma gen_take_prefix:
  assumes "\<forall>x \<in> set pre. \<exists>out. row_to_output d head mdl x = Inr out"
  shows "gen_take d \<lparr> g_head = head, g_model = mdl, g_rows = pre @ rest \<rparr> (length pre + n)
       = map (row_to_output d head mdl) pre
         @ gen_take d \<lparr> g_head = head, g_model = mdl, g_rows = rest \<rparr> n"
  using assms
proof (induction pre)
  case Nil
  show ?case by simp
next
  case (Cons x xs)
  then obtain out where out: "row_to_output d head mdl x = Inr out" by auto
  from Cons have IH: "gen_take d \<lparr> g_head = head, g_model = mdl, g_rows = xs @ rest \<rparr> (length xs + n)
       = map (row_to_output d head mdl) xs
         @ gen_take d \<lparr> g_head = head, g_model = mdl, g_rows = rest \<rparr> n"
    by simp
  show ?case by (simp add: gen_next_def out IH)
qed

lemma map_all_Inr:
  "\<forall>x \<in> set xs. \<exists>out. f x = Inr out \<Longrightarrow> \<exists>outs. length outs = length xs \<and> map f xs = map Inr outs"
proof (induction xs)
  case Nil
  show ?case by simp
next
  case (Cons x xs)
  then obtain out outs where "f x = Inr out" "length outs = length xs" "map f xs = map Inr outs"
    by auto
  then have "length (out # outs) = length (x # xs) \<and> map f (x # xs) = map Inr (out # outs)"
    by simp
  then show ?case by blast
qed

text \<open>
  C10. Let the query of \<open>fetch\<close> succeed with rows of which one does not validate against the
  bound model, the rows before it converting without error. Then \<open>fetch\<close> (with
  \<open>no_handle\<close> and \<open>ignore_model\<close> false) returns its generator, not \<open>None\<close> and not an error;
  the generator yields the records of the earlier rows, and the call of \<open>next\<close> that reaches
  the bad row raises the validation error, after which the generator is exhausted.
\<close>

theorem fetch_validation_error_is_lazy:
  fixes be :: "'q backend" and d location mdl
  defines "d1 \<equiv> bind_model d location mdl"
  defines "table \<equiv> table_of d1 location"
  assumes q: "fetch_query be (db d1) table condition limit_result = Inr (pre @ r # post)"
    and m: "get_model d1 location = Some m"
    and pre_ok: "\<forall>x \<in> set pre. \<exists>out. row_to_output d1 table (Some m) x = Inr out"
    and zip: "zip_headers (headers d1) table 0 r [] = Inr data"
    and bad: "m_validate m data = Inl e"
  shows "fetch be d location condition limit_result mdl False False
           = (Inr (Fetch_gen (result_to_output table (Some m) (pre @ r # post))), d1)
       \<and> (\<exists>outs. length outs = length pre
             \<and> gen_take d1 (result_to_output table (Some m) (pre @ r # post)) (length pre + 2)
                 = map Inr outs @ [Inl e, Inl StopIteration])"
proof -
  have f: "fetch be d location condition limit_result mdl False False
           = (Inr (Fetch_gen (result_to_output table (Some m) (pre @ r # post))), d1)"
    using q m by (simp add: fetch_def Let_def d1_def [symmetric] table_def [symmetric])
  have r: "row_to_output d1 table (Some m) r = Inl e"
    using zip bad by (simp add: row_to_output_def model_call_def)
  have tail: "gen_take d1 \<lparr> g_head = table, g_model = Some m, g_rows = r # post \<rparr> 2
              = [Inl e, Inl StopIteration]"
    by (simp add: numeral_2_eq_2 gen_next_def r)
  from map_all_Inr [OF pre_ok] obtain outs where
    outs: "length outs = length pre" "map (row_to_output d1 table (Some m)) pre = map Inr outs"
    by blast
  have "gen_take d1 (result_to_output table (Some m) (pre @ r # post)) (length pre + 2)
        = map Inr outs @ [Inl e, Inl StopIteration]"
    unfolding result_to_output_def gen_take_prefix [OF pre_ok] tail outs by (rule refl)
  with f outs(1) show ?thesis by blast
qed

theorem fetch_validation_error_is_lazy_witness:
  "fetch ex_backend
     (ex_driver [(''tbl_users'', [(''id'', PInt 1)]), (''tbl_users'', [(''id'', PStr ''x'')])] [])
     ''tbl_users'' [] (-1) None False False
     = (Inr (Fetch_gen (result_to_output ''tbl_users'' (Some ex_user) [[PInt 1], [PStr ''x'']])),
        ex_driver [(''tbl_users'', [(''id'', PInt 1)]), (''tbl_users'', [(''id'', PStr ''x'')])] [])
   \<and> gen_take
        (ex_driver [(''tbl_users'', [(''id'', PInt 1)]), (''tbl_users'', [(''id'', PStr ''x'')])] [])
        (result_to_output ''tbl_users'' (Some ex_user) [[PInt 1], [PStr ''x'']]) 3
     = [Inr [(''id'', PInt 1)],
        Inl (ValidationError [ErrorWrapper ''value is not a valid integer'' ''id''] ''User''),
        Inl StopIteration]"
proof -
  let ?d = "ex_driver [(''tbl_users'', [(''id'', PInt 1)]), (''tbl_users'', [(''id'', PStr ''x'')])] []"
  let ?e = "ValidationError [ErrorWrapper ''value is not a valid integer'' ''id''] ''User''"
  have b: "bind_model ?d ''tbl_users'' None = ?d"
    by (simp add: bind_model_def)
  have t: "table_of ?d ''tbl_users'' = ''tbl_users''"
    by (simp add: table_of_def ex_defs)
  have h: "headers ?d = [(''tbl_users'', [''id''])]"
    by (simp add: ex_defs)
  have q: "fetch_query ex_backend (db ?d) ''tbl_users'' [] (-1) = Inr ([[PInt 1]] @ [PStr ''x''] # [])"
    by (simp add: fetch_query_def ex_backend_def ex_rows_def ex_defs)
  have m: "get_model ?d ''tbl_users'' = Some ex_user"
    by (simp add: get_model_def ex_defs)
  have r1: "row_to_output ?d ''tbl_users'' (Some ex_user) [PInt 1] = Inr [(''id'', PInt 1)]"
    by (simp add: row_to_output_def h model_call_def inst_dict_def ex_user_def
          ex_user_validate_def ex_int_field_def)
  then have pre_ok: "\<forall>x \<in> set [[PInt 1]]. \<exists>out. row_to_output ?d ''tbl_users'' (Some ex_user) x = Inr out"
    by simp
  have zip: "zip_headers (headers ?d) ''tbl_users'' 0 [PStr ''x''] [] = Inr [(''id'', PStr ''x'')]"
    by (simp add: h)
  have bad: "m_validate ex_user [(''id'', PStr ''x'')] = Inl ?e"
    by (simp add: ex_user_def ex_user_validate_def ex_int_field_def)
  from fetch_validation_error_is_lazy
         [where be = ex_backend and d = ?d and location = "''tbl_users''" and mdl = None
            and condition = "[]" and limit_result = "-1" and pre = "[[PInt 1]]"
            and r = "[PStr ''x'']" and post = "[]" and m = ex_user
            and data = "[(''id'', PStr ''x'')]" and e = ?e,
          unfolded b t, OF q m pre_ok zip bad]
  obtain outs where f: "fetch ex_backend ?d ''tbl_users'' [] (-1) None False False
       = (Inr (Fetch_gen (result_to_output ''tbl_users'' (Some ex_user) [[PInt 1], [PStr ''x'']])), ?d)"
    and l: "length outs = length [[PInt 1 :: pyval]]"
    and g: "gen_take ?d (result_to_output ''tbl_users'' (Some ex_user) ([[PInt 1]] @ [PStr ''x''] # []))
              (length [[PInt 1 :: pyval]] + 2) = map Inr outs @ [Inl ?e, Inl StopIteration]"
    by auto
  have three: "length [[PInt 1 :: pyval]] + 2 = 3" by simp
  have first: "gen_take ?d (result_to_output ''tbl_users'' (Some ex_user) [[PInt 1], [PStr ''x'']]) 3 ! 0
               = Inr [(''id'', PInt 1)]"
    by (simp add: numeral_3_eq_3 result_to_output_def gen_next_def r1)
  from l obtain o1 where outs: "outs = [o1]" by (cases outs) auto
  from g have g3: "gen_take ?d (result_to_output ''tbl_users'' (Some ex_user) [[PInt 1], [PStr ''x'']]) 3
             = [Inr o1, Inl ?e, Inl StopIteration]"
    unfolding three outs by simp
  with first have "o1 = [(''id'', PInt 1)]" by simp
  with g3 f show ?thesis by simp
qed

lemma add_commit_committed:
  "add_commit be s r = (Some e, s1) \<Longrightarrow> committed s1 = committed s"
  by (auto simp: add_commit_def session_add_def session_commit_def split: option.splits prod.splits)

lemma add_commit_prefix:
  "add_commit be s r = (res, s1) \<Longrightarrow> prefix (committed s) (committed s1)"
  by (auto simp: add_commit_def session_add_def session_commit_def split: option.splits prod.splits)

lemma export_try_frame:
  "export_try be d r = (res, d1) \<Longrightarrow>
     models d1 = models d \<and> headers d1 = headers d \<and> maps d1 = maps d \<and> rev_map d1 = rev_map d"
  by (auto simp: export_try_def split: prod.splits option.splits exn.splits)

lemma export_try_prefix:
  "export_try be d r = (res, d1) \<Longrightarrow> prefix (committed (db d)) (committed (db d1))"
  by (auto simp: export_try_def session_rollback_def split: prod.splits option.splits exn.splits
           dest: add_commit_prefix)

lemma export_loop_frame:
  "export_loop be mdl location incl excl xs d = (res, d1) \<Longrightarrow>
     models d1 = models d \<and> headers d1 = headers d \<and> maps d1 = maps d \<and> rev_map d1 = rev_map d"
proof (induction xs arbitrary: d)
  case Nil
  then show ?case by simp
next
  case (Cons x xs)
  show ?case
  proof (cases "export_row be d mdl location incl excl x")
    case (Inl e)
    with Cons.prems show ?thesis by simp
  next
    case (Inr r)
    obtain t d2 where t: "export_try be d r = (t, d2)" by (cases "export_try be d r")
    note fr = export_try_frame [OF t]
    show ?thesis
    proof (cases t)
      case None
      with Cons.prems Inr t have "export_loop be mdl location incl excl xs d2 = (res, d1)" by simp
      from Cons.IH [OF this] fr show ?thesis by simp
    next
      case (Some e)
      with Cons.prems Inr t fr show ?thesis by simp
    qed
  qed
qed

lemma export_loop_prefix:
  "export_loop be mdl location incl excl xs d = (res, d1) \<Longrightarrow>
     prefix (committed (db d)) (committed (db d1))"
proof (induction xs arbitrary: d)
  case Nil
  then show ?case by simp
next
  case (Cons x xs)
  show ?case
  proof (cases "export_row be d mdl location incl excl x")
    case (Inl e)
    with Cons.prems show ?thesis by simp
  next
    case (Inr r)
    obtain t d2 where t: "export_try be d r = (t, d2)" by (cases "export_try be d r")
    note pf = export_try_prefix [OF t]
    show ?thesis
    proof (cases t)
      case None
      with Cons.prems Inr t have "export_loop be mdl location incl excl xs d2 = (res, d1)" by simp
      from Cons.IH [OF this] pf show ?thesis by (rule prefix_order.order_trans [rotated])
    next
      case (Some e)
      with Cons.prems Inr t pf show ?thesis by simp
    qed
  qed
qed

lemma export_loop_append:
  "export_loop be mdl location incl excl (xs @ ys) d =
     (case export_loop be mdl location incl excl xs d of
        (Inl e, d1) \<Rightarrow> (Inl e, d1)
      | (Inr u, d1) \<Rightarrow> export_loop be mdl location incl excl ys d1)"
  by (induction xs arbitrary: d) (auto split: sum.splits prod.splits option.splits)

lemma export_frame:
  assumes "models d1 = models d" "headers d1 = headers d" "maps d1 = maps d" "rev_map d1 = rev_map d"
  shows "get_model d1 location = get_model d location"
    and "model_fits d1 location = model_fits d location"
    and "include_default d1 location incl = include_default d location incl"
  unfolding get_model_def model_fits_def include_default_def assms by (rule refl)+


text \<open>
  C2 (as amended). Let \<open>export\<close> have processed the items before item \<open>k\<close>. If \<open>add\<close> or
  \<open>commit\<close> of item \<open>k\<close> raises \<open>SQLAlchemyError\<close>, the rows committed so far stay committed,
  the pending change is rolled back, the error is printed, and the items after \<open>k\<close> are
  processed from that state. If instead item \<open>k\<close> fails before the \<open>try\<close> (coercion into the
  model, projection, building the row object), the exception leaves \<open>export\<close>: the items
  after \<open>k\<close> are not processed. Rows committed before the call stay committed.
\<close>

theorem export_failure_isolation:
  fixes be :: "'q backend"
  assumes fits: "model_fits d location = Inr True"
    and inc: "include_default d location incl = Inr incl_set"
    and pre: "export be d location pre incl excl = (Inr (), d_pre)"
  shows "(\<forall>r msg s.
            export_row be d_pre (get_model d location) location incl_set (exclude_default excl) x = Inr r
            \<and> add_commit be (db d_pre) r = (Some (SQLAlchemyError msg), s) \<longrightarrow>
            export be d location (pre @ x # post) incl excl
              = export be
                  (d_pre\<lparr> db := \<lparr> committed = committed (db d_pre), pending = [] \<rparr>,
                       stdout := stdout d_pre @ [''Error exporting data: '' @ msg] \<rparr>)
                  location post incl excl)
       \<and> (\<forall>e. export_row be d_pre (get_model d location) location incl_set (exclude_default excl) x
                 = Inl e \<longrightarrow>
              export be d location (pre @ x # post) incl excl = (Inl e, d_pre))
       \<and> prefix (committed (db d)) (committed (db d_pre))"
proof -
  let ?mdl = "get_model d location"
  let ?ex = "exclude_default excl"
  have ex: "export be d location xs incl excl = export_loop be ?mdl location incl_set ?ex xs d" for xs
    by (simp add: export_def fits inc)
  from pre have lp: "export_loop be ?mdl location incl_set ?ex pre d = (Inr (), d_pre)"
    by (simp add: ex)
  note fr = export_loop_frame [OF lp]
  have app: "export be d location (pre @ x # post) incl excl
             = export_loop be ?mdl location incl_set ?ex (x # post) d_pre"
    by (simp add: ex export_loop_append lp)
  have A: "export be d location (pre @ x # post) incl excl
              = export be
                  (d_pre\<lparr> db := \<lparr> committed = committed (db d_pre), pending = [] \<rparr>,
                       stdout := stdout d_pre @ [''Error exporting data: '' @ msg] \<rparr>)
                  location post incl excl"
    if row: "export_row be d_pre ?mdl location incl_set ?ex x = Inr r"
      and fail: "add_commit be (db d_pre) r = (Some (SQLAlchemyError msg), s)"
    for r msg s
  proof -
    let ?d2 = "d_pre\<lparr> db := \<lparr> committed = committed (db d_pre), pending = [] \<rparr>,
                   stdout := stdout d_pre @ [''Error exporting data: '' @ msg] \<rparr>"
    have cs: "committed s = committed (db d_pre)"
      using fail by (rule add_commit_committed)
    have tr: "export_try be d_pre r = (None, ?d2)"
      by (simp add: export_try_def fail session_rollback_def cs)
    have step: "export_loop be ?mdl location incl_set ?ex (x # post) d_pre
                = export_loop be ?mdl location incl_set ?ex post ?d2"
      by (simp add: row tr)
    have fr2: "models ?d2 = models d" "headers ?d2 = headers d" "maps ?d2 = maps d"
      "rev_map ?d2 = rev_map d"
      using fr by simp_all
    have "export be ?d2 location post incl excl
          = export_loop be ?mdl location incl_set ?ex post ?d2"
      unfolding export_def export_frame [OF fr2] by (simp add: fits inc)
    with app step show ?thesis by simp
  qed
  have B: "export be d location (pre @ x # post) incl excl = (Inl e, d_pre)"
    if "export_row be d_pre ?mdl location incl_set ?ex x = Inl e" for e
    using that by (simp add: app)
  have C: "prefix (committed (db d)) (committed (db d_pre))"
    using lp by (rule export_loop_prefix)
  from A B C show ?thesis by blast
qed

text \<open>The concrete backend on the rows of the \<open>User\<close> table.\<close>

lemma ex_export_row:
  "export_row ex_backend d (Some ex_user) location {''id''} {} (Item_dict [(''id'', PInt n)])
     = Inr (table_of d location, [(''id'', PInt n)])"
  by (simp add: export_row_def model_call_def ex_user_def ex_user_validate_def
        ex_int_field_def inst_dict_proj_def inst_dict_def ex_backend_def)

lemma ex_export_row_bad:
  "export_row ex_backend d (Some ex_user) ''tbl_users'' {''id''} {} (Item_dict [(''name'', PStr ''x'')])
     = Inl (ValidationError [ErrorWrapper ''field required'' ''id''] ''User'')"
  by (simp add: export_row_def model_call_def ex_user_def ex_user_validate_def)

lemma ex_add_commit:
  "pending s = [] \<Longrightarrow> n \<noteq> 2 \<Longrightarrow>
   add_commit ex_backend s (''tbl_users'', [(''id'', PInt n)])
     = (None, \<lparr> committed = committed s @ [(''tbl_users'', [(''id'', PInt n)])], pending = [] \<rparr>)"
  by (simp add: add_commit_def session_add_def session_commit_def ex_backend_def)

lemma ex_add_commit_two:
  "pending s = [] \<Longrightarrow>
   add_commit ex_backend s (''tbl_users'', [(''id'', PInt 2)])
     = (Some (SQLAlchemyError ''UNIQUE constraint failed: tbl_users.id''),
        s\<lparr> pending := [(''tbl_users'', [(''id'', PInt 2)])] \<rparr>)"
  by (simp add: add_commit_def session_add_def session_commit_def ex_backend_def)

lemma ex_export:
  "maps d = [] \<Longrightarrow> headers d = [(''tbl_users'', [''id''])] \<Longrightarrow>
   models d = [(''tbl_users'', ex_user)] \<Longrightarrow>
   export ex_backend d ''tbl_users'' stream None None
     = export_loop ex_backend (Some ex_user) ''tbl_users'' {''id''} {} stream d"
  by (simp add: export_def model_fits_def get_model_def include_default_def exclude_default_def
        ex_user_def)

theorem export_failure_isolation_witness:
  "export ex_backend (ex_driver [] []) ''tbl_users''
     [Item_dict [(''id'', PInt 1)], Item_dict [(''id'', PInt 2)], Item_dict [(''id'', PInt 3)]]
     None None
   = (Inr (),
      (ex_driver [] [])
        \<lparr> db := \<lparr> committed = [(''tbl_users'', [(''id'', PInt 1)]), (''tbl_users'', [(''id'', PInt 3)])],
                   pending = [] \<rparr>,
          stdout := [''Error exporting data: UNIQUE constraint failed: tbl_users.id''] \<rparr>)
   \<and> export ex_backend (ex_driver [] []) ''tbl_users''
     [Item_dict [(''id'', PInt 1)], Item_dict [(''name'', PStr ''x'')], Item_dict [(''id'', PInt 3)]]
     None None
   = (Inl (ValidationError [ErrorWrapper ''field required'' ''id''] ''User''),
      (ex_driver [] [])
        \<lparr> db := \<lparr> committed = [(''tbl_users'', [(''id'', PInt 1)])], pending = [] \<rparr> \<rparr>)"
proof -
  let ?d = "ex_driver [] []"
  let ?r1 = "(''tbl_users'', [(''id'', PInt 1)])"
  let ?r2 = "(''tbl_users'', [(''id'', PInt 2)])"
  let ?r3 = "(''tbl_users'', [(''id'', PInt 3)])"
  let ?d1 = "?d\<lparr> db := \<lparr> committed = [?r1], pending = [] \<rparr> \<rparr>"
  let ?msg = "''UNIQUE constraint failed: tbl_users.id''"
  let ?d2 = "?d1\<lparr> db := \<lparr> committed = committed (db ?d1), pending = [] \<rparr>,
                  stdout := stdout ?d1 @ [''Error exporting data: '' @ ?msg] \<rparr>"
  have fr: "maps ?d = []" "headers ?d = [(''tbl_users'', [''id''])]"
    "models ?d = [(''tbl_users'', ex_user)]" "db ?d = \<lparr> committed = [], pending = [] \<rparr>"
    "stdout ?d = []"
    by (simp_all add: ex_defs)
  have t: "table_of d ''tbl_users'' = ''tbl_users''" if "maps d = []" for d
    using that by (simp add: table_of_def)
  have g: "get_model ?d ''tbl_users'' = Some ex_user"
    by (simp add: get_model_def fr)
  have fits: "model_fits ?d ''tbl_users'' = Inr True"
    by (simp add: model_fits_def g fr ex_user_def)
  have inc: "include_default ?d ''tbl_users'' None = Inr {''id''}"
    by (simp add: include_default_def fr)
  have pre: "export ex_backend ?d ''tbl_users'' [Item_dict [(''id'', PInt 1)]] None None
             = (Inr (), ?d1)"
    by (simp add: ex_export fr ex_export_row t export_try_def ex_add_commit)
  have row2: "export_row ex_backend ?d1 (get_model ?d ''tbl_users'') ''tbl_users'' {''id''}
                (exclude_default None) (Item_dict [(''id'', PInt 2)]) = Inr ?r2"
    by (simp add: g exclude_default_def ex_export_row t fr)
  have fail: "add_commit ex_backend (db ?d1) ?r2
              = (Some (SQLAlchemyError ?msg), (db ?d1)\<lparr> pending := [?r2] \<rparr>)"
    by (simp add: ex_add_commit_two)
  have rest: "export ex_backend ?d2 ''tbl_users'' [Item_dict [(''id'', PInt 3)]] None None
       = (Inr (), ?d\<lparr> db := \<lparr> committed = [?r1, ?r3], pending = [] \<rparr>,
                        stdout := [''Error exporting data: '' @ ?msg] \<rparr>)"
    by (simp add: ex_export fr ex_export_row t export_try_def ex_add_commit)
  have A: "export ex_backend ?d ''tbl_users''
             ([Item_dict [(''id'', PInt 1)]] @ Item_dict [(''id'', PInt 2)] # [Item_dict [(''id'', PInt 3)]])
             None None
           = export ex_backend ?d2 ''tbl_users'' [Item_dict [(''id'', PInt 3)]] None None"
    using export_failure_isolation
            [OF fits inc pre, of "Item_dict [(''id'', PInt 2)]" "[Item_dict [(''id'', PInt 3)]]",
             THEN conjunct1] row2 fail
    by blast
  have rowb: "export_row ex_backend ?d1 (get_model ?d ''tbl_users'') ''tbl_users'' {''id''}
                (exclude_default None) (Item_dict [(''name'', PStr ''x'')])
              = Inl (ValidationError [ErrorWrapper ''field required'' ''id''] ''User'')"
    by (simp add: g exclude_default_def ex_export_row_bad)
  have B: "export ex_backend ?d ''tbl_users''
             ([Item_dict [(''id'', PInt 1)]] @ Item_dict [(''name'', PStr ''x'')]
                # [Item_dict [(''id'', PInt 3)]])
             None None
           = (Inl (ValidationError [ErrorWrapper ''field required'' ''id''] ''User''), ?d1)"
    using export_failure_isolation
            [OF fits inc pre, of "Item_dict [(''name'', PStr ''x'')]" "[Item_dict [(''id'', PInt 3)]]",
             THEN conjunct2, THEN conjunct1] rowb
    by blast
  from A rest B show ?thesis by simp
qed

text \<open>
  C2 as stated fails for an item that cannot be coerced into the bound model: of three
  items, the second lacks the required field. The validation error leaves \<open>export\<close>, nothing
  is printed or rolled back, and the third item, which on its own is inserted, is never
  processed; only the first row is committed.
\<close>

theorem export_coercion_failure_counterexample:
  "export ex_backend (ex_driver [] []) ''tbl_users''
     [Item_dict [(''id'', PInt 1)], Item_dict [(''name'', PStr ''x'')], Item_dict [(''id'', PInt 3)]]
     None None
   = (Inl (ValidationError [ErrorWrapper ''field required'' ''id''] ''User''),
      (ex_driver [] [])
        \<lparr> db := \<lparr> committed = [(''tbl_users'', [(''id'', PInt 1)])], pending = [] \<rparr> \<rparr>)
   \<and> stdout (ex_driver [] []) = []
   \<and> export ex_backend (ex_driver [] []) ''tbl_users'' [Item_dict [(''id'', PInt 3)]] None None
   = (Inr (),
      (ex_driver [] [])
        \<lparr> db := \<lparr> committed = [(''tbl_users'', [(''id'', PInt 3)])], pending = [] \<rparr> \<rparr>)"
proof -
  let ?d = "ex_driver [] []"
  have fr: "maps ?d = []" "headers ?d = [(''tbl_users'', [''id''])]"
    "models ?d = [(''tbl_users'', ex_user)]" "db ?d = \<lparr> committed = [], pending = [] \<rparr>"
    "stdout ?d = []"
    by (simp_all add: ex_defs)
  have t: "table_of d ''tbl_users'' = ''tbl_users''" if "maps d = []" for d
    using that by (simp add: table_of_def)
  show ?thesis
    by (simp add: ex_export fr ex_export_row ex_export_row_bad t export_try_def ex_add_commit)
qed

section \<open>The precondition of export and the table it writes to\<close>

text \<open>
  C7. The claim: \<open>export\<close> fails before any item when the columns of the table are not all
  fields of the bound model. \<open>export\<close> writes to the table \<open>maps.get(location, location)\<close>,
  as \<open>fetch\<close> reads the headers of that table, but \<open>_model_fits\<close> reads the headers under the
  location itself. With the tables \<open>users(id)\<close> and \<open>tbl_users(id, email)\<close>, the model
  \<open>User(id)\<close> bound under \<open>users\<close> and \<open>users\<close> mapped to \<open>tbl_users\<close>, the table written to
  has the column \<open>email\<close>, which is no field of the model; yet \<open>_model_fits\<close> is true, and
  \<open>export\<close> returns normally with the row committed to \<open>tbl_users\<close>.
\<close>

theorem export_precondition_reads_wrong_table:
  "table_of (driver_init (ex_session [])
        [(''users'', [''id'']), (''tbl_users'', [''id'', ''email''])]
        [(''users'', ex_user)] [(''users'', ''tbl_users'')]) ''users'' = ''tbl_users''
   \<and> get_model (driver_init (ex_session [])
        [(''users'', [''id'']), (''tbl_users'', [''id'', ''email''])]
        [(''users'', ex_user)] [(''users'', ''tbl_users'')]) ''users'' = Some ex_user
   \<and> map_of (headers (driver_init (ex_session [])
        [(''users'', [''id'']), (''tbl_users'', [''id'', ''email''])]
        [(''users'', ex_user)] [(''users'', ''tbl_users'')])) ''tbl_users'' = Some [''id'', ''email'']
   \<and> ''email'' \<notin> set (map fst (m_fields ex_user))
   \<and> model_fits (driver_init (ex_session [])
        [(''users'', [''id'']), (''tbl_users'', [''id'', ''email''])]
        [(''users'', ex_user)] [(''users'', ''tbl_users'')]) ''users'' = Inr True
   \<and> export ex_backend (driver_init (ex_session [])
        [(''users'', [''id'']), (''tbl_users'', [''id'', ''email''])]
        [(''users'', ex_user)] [(''users'', ''tbl_users'')]) ''users''
        [Item_dict [(''id'', PInt 1)]] None None
     = (Inr (),
        (driver_init (ex_session [])
           [(''users'', [''id'']), (''tbl_users'', [''id'', ''email''])]
           [(''users'', ex_user)] [(''users'', ''tbl_users'')])
          \<lparr> db := \<lparr> committed = [(''tbl_users'', [(''id'', PInt 1)])], pending = [] \<rparr> \<rparr>)"
proof -
  let ?d = "driver_init (ex_session [])
        [(''users'', [''id'']), (''tbl_users'', [''id'', ''email''])]
        [(''users'', ex_user)] [(''users'', ''tbl_users'')]"
  have fr: "maps ?d = [(''users'', ''tbl_users'')]"
    "headers ?d = [(''users'', [''id'']), (''tbl_users'', [''id'', ''email''])]"
    "models ?d = [(''users'', ex_user)]" "db ?d = \<lparr> committed = [], pending = [] \<rparr>"
    by (simp_all add: ex_defs)
  have t: "table_of ?d ''users'' = ''tbl_users''"
    by (simp add: table_of_def fr)
  have g: "get_model ?d ''users'' = Some ex_user"
    by (simp add: get_model_def fr)
  have h: "map_of (headers ?d) ''tbl_users'' = Some [''id'', ''email'']"
    by (simp add: fr)
  have n: "''email'' \<notin> set (map fst (m_fields ex_user))"
    by (simp add: ex_user_def)
  have hu: "map_of (headers ?d) ''users'' = Some [''id'']"
    by (simp add: fr)
  have k: "map fst (m_fields ex_user) = [''id'']"
    by (simp add: ex_user_def)
  have f: "model_fits ?d ''users'' = Inr True"
    unfolding model_fits_def g by (simp add: hu k)
  have inc: "include_default ?d ''users'' None = Inr {''id''}"
    by (simp add: include_default_def hu)
  have e: "export ex_backend ?d ''users'' [Item_dict [(''id'', PInt 1)]] None None
     = (Inr (), ?d \<lparr> db := \<lparr> committed = [(''tbl_users'', [(''id'', PInt 1)])], pending = [] \<rparr> \<rparr>)"
    by (simp add: export_def f g inc exclude_default_def ex_export_row t export_try_def
          ex_add_commit fr)
  from t g h n f e show ?thesis by blast
qed

end
